theory Spec2Isabelle
  imports Main "HOL-Library.Sublist"
begin

section \<open>Data model\<close>

text \<open>
  The values the loaders of \<^verbatim>\<open>jinja_cli/__main__.py\<close> produce: what \<^verbatim>\<open>json.load\<close>,
  \<^verbatim>\<open>yaml.safe_load\<close>, \<^verbatim>\<open>xmltodict.parse\<close>, \<^verbatim>\<open>csv\<close> readers and the ini loader
  return. A Python \<^verbatim>\<open>dict\<close> is an association list in insertion order with unique keys.
\<close>

datatype pyval =
    PNone
  | PBool bool
  | PNum int
  | PStr string
  | PList "pyval list"
  | PDict "(string \<times> pyval) list"

type_synonym pydict = "(string \<times> pyval) list"

text \<open>
  Exceptions. \<open>Exception\<close> is the bare \<^verbatim>\<open>raise Exception(msg)\<close> of the source (lines 177 and
  197), \<open>NameError\<close> is what Python raises when a name that is bound neither locally, nor in
  the module, nor as a builtin is evaluated, and \<open>LibraryError\<close> is any exception raised
  inside a library or I/O call (\<^verbatim>\<open>open\<close>, a parser, jinja2).
\<close>

datatype error =
    NameError string
  | Exception string
  | LibraryError string

definition lib :: "string + 'a \<Rightarrow> error + 'a" where
  "lib r = (case r of Inl e \<Rightarrow> Inl (LibraryError e) | Inr x \<Rightarrow> Inr x)"

subsection \<open>Dictionaries\<close>

text \<open>\<^verbatim>\<open>d[k] = v\<close>: an existing key keeps its position, a new key is appended.\<close>

fun dict_set :: "(string \<times> 'v) list \<Rightarrow> string \<Rightarrow> 'v \<Rightarrow> (string \<times> 'v) list" where
  "dict_set [] k v = [(k, v)]"
| "dict_set ((k', v') # d) k v = (if k' = k then (k, v) # d else (k', v') # dict_set d k v)"

text \<open>\<^verbatim>\<open>d.update(pairs)\<close>: the pairs are stored one after the other, in their order.\<close>

fun dict_update :: "(string \<times> 'v) list \<Rightarrow> (string \<times> 'v) list \<Rightarrow> (string \<times> 'v) list" where
  "dict_update d [] = d"
| "dict_update d ((k, v) # kvs) = dict_update (dict_set d k v) kvs"

text \<open>\<^verbatim>\<open>dict(pairs)\<close>: a fresh dictionary of the pairs.\<close>

definition make_dict :: "(string \<times> 'v) list \<Rightarrow> (string \<times> 'v) list" where
  "make_dict kvs = dict_update [] kvs"

definition dict_get :: "(string \<times> 'v) list \<Rightarrow> string \<Rightarrow> 'v option" where
  "dict_get d k = map_of d k"

definition str_items :: "(string \<times> string) list \<Rightarrow> pydict" where
  "str_items kvs = map (\<lambda>(k, v). (k, PStr v)) kvs"

subsection \<open>Strings\<close>

definition endswith :: "string \<Rightarrow> string \<Rightarrow> bool" where
  "endswith s sfx = suffix sfx s"

definition startswith :: "string \<Rightarrow> string \<Rightarrow> bool" where
  "startswith s pfx = prefix pfx s"

text \<open>\<^verbatim>\<open>s.partition('.')[-1]\<close>: what follows the first dot, empty when there is none.\<close>

definition partition_last :: "string \<Rightarrow> string" where
  "partition_last s = (case dropWhile (\<lambda>c. c \<noteq> CHR ''.'') s of [] \<Rightarrow> [] | _ # rest \<Rightarrow> rest)"

section \<open>The module namespace\<close>

text \<open>
  The names bound at module level when \<^verbatim>\<open>main()\<close> runs: the imports of lines 7-21,
  \<^verbatim>\<open>prog\<close> (line 24) and the functions the module defines. The module imports neither
  \<^verbatim>\<open>csv\<close> nor \<^verbatim>\<open>collections\<close>, and binds neither \<^verbatim>\<open>dialect_args\<close> nor
  \<^verbatim>\<open>dialect_options\<close> (line 119 binds the local \<^verbatim>\<open>default_dialect_args\<close>).
\<close>

definition module_globals :: "string list" where
  "module_globals =
     [''DictLoader'', ''Environment'', ''FileSystemLoader'', ''Template'',
      ''basename'', ''dirname'', ''argparse'', ''argparse_ext'', ''configparser'',
      ''json'', ''logging'', ''os'', ''sys'', ''xmltodict'', ''yaml'', ''prog'',
      ''load_data_ini'', ''load_data_json'', ''load_data_xml'', ''load_data_yaml'',
      ''load_data_dsv'', ''load_data'', ''parse_args'', ''main'']"

text \<open>
  Evaluating a global name. The functions below take the namespace \<open>g\<close> as a parameter,
  so that a statement can be made for the module as it is (\<open>module_globals\<close>) and for every
  namespace. Builtins (\<^verbatim>\<open>dict\<close>, \<^verbatim>\<open>isinstance\<close>, \<^verbatim>\<open>list\<close>, \<^verbatim>\<open>open\<close>,
  \<^verbatim>\<open>Exception\<close>) and local variables are always bound and are not looked up here.
\<close>

definition global_ref :: "string list \<Rightarrow> string \<Rightarrow> error + unit" where
  "global_ref g name = (if name \<in> set g then Inr () else Inl (NameError name))"

section \<open>The outside world\<close>

text \<open>
  The result of \<^verbatim>\<open>configparser.ConfigParser.read_file\<close>, as line 46 sees it:
  \<^verbatim>\<open>cp.defaults()\<close>, \<^verbatim>\<open>cp.sections()\<close> and, for a section \<open>s\<close>, the key/value pairs that
  \<^verbatim>\<open>**cp[s]\<close> unpacks (or the exception value interpolation raises).
\<close>

record config_parser =
  cp_defaults :: "(string \<times> string) list"
  cp_sections :: "string list"
  cp_getitem :: "string \<Rightarrow> string + (string \<times> string) list"

datatype loader = DictLoader "(string \<times> string) list" | FileSystemLoader string

text \<open>
  Library and I/O calls, each returning its value or the exception it raises. \<open>'t\<close> is
  jinja2's compiled template. \<open>open_rt\<close> gives the text of a file opened for reading,
  \<open>open_wt\<close> and \<open>write_fails\<close> say whether opening for writing and writing fail.
\<close>

record 't externals =
  open_rt :: "string \<Rightarrow> string + string"
  cp_read_file :: "string \<Rightarrow> string + config_parser"
  json_load :: "string \<Rightarrow> string + pyval"
  xmltodict_parse :: "string \<Rightarrow> string + pyval"
  yaml_safe_load :: "string \<Rightarrow> string + pyval"
  csv_read :: "bool \<Rightarrow> string \<Rightarrow> string \<Rightarrow> string + pyval"
  dirname :: "string \<Rightarrow> string"
  basename :: "string \<Rightarrow> string"
  get_template :: "loader \<Rightarrow> string \<Rightarrow> string + 't"
  render :: "'t \<Rightarrow> pydict \<Rightarrow> string + string"
  open_wt :: "string \<Rightarrow> string option"
  write_fails :: "string \<Rightarrow> string option"

datatype stream = Stdin | FileObj string

datatype dest = Stdout | OutFile string

datatype out_event = Opened string | Wrote dest string | Closed dest

text \<open>
  The state a run changes: the unread rest of standard input, whether standard input was
  closed, the lines logged, and what was done to the output destination, oldest first.
\<close>

record world =
  stdin :: string
  stdin_closed :: bool
  logged :: "string list"
  out_events :: "out_event list"

definition read_all :: "stream \<Rightarrow> world \<Rightarrow> string \<times> world" where
  "read_all fin w =
     (case fin of
        Stdin \<Rightarrow> (stdin w, w\<lparr>stdin := []\<rparr>)
      | FileObj txt \<Rightarrow> (txt, w))"

definition close_stream :: "stream \<Rightarrow> world \<Rightarrow> world" where
  "close_stream fin w = (case fin of Stdin \<Rightarrow> w\<lparr>stdin_closed := True\<rparr> | FileObj _ \<Rightarrow> w)"

section \<open>The loaders\<close>

fun global_refs :: "string list \<Rightarrow> string list \<Rightarrow> error + unit" where
  "global_refs g [] = Inr ()"
| "global_refs g (n # ns) =
     (case global_ref g n of Inl e \<Rightarrow> Inl e | Inr _ \<Rightarrow> global_refs g ns)"

text \<open>
  Line 46, \<^verbatim>\<open>{ s: dict(cp.defaults(), **cp[s]) for s in cp.sections() }\<close>: one entry per
  section, in the order of \<^verbatim>\<open>cp.sections()\<close>; its value is a fresh dictionary of the
  defaults, updated with the pairs of the section.
\<close>

definition section_dict :: "(string \<times> string) list \<Rightarrow> (string \<times> string) list \<Rightarrow> pydict" where
  "section_dict defaults items = dict_update (make_dict (str_items defaults)) (str_items items)"

fun ini_sections :: "config_parser \<Rightarrow> string list \<Rightarrow> pydict \<Rightarrow> error + pydict" where
  "ini_sections cp [] acc = Inr acc"
| "ini_sections cp (s # ss) acc =
     (case lib (cp_getitem cp s) of
        Inl e \<Rightarrow> Inl e
      | Inr items \<Rightarrow>
          ini_sections cp ss (dict_set acc s (PDict (section_dict (cp_defaults cp) items))))"

text \<open>\<^verbatim>\<open>load_data_ini\<close>, lines 28-46.\<close>

definition load_data_ini ::
  "string list \<Rightarrow> 't externals \<Rightarrow> stream \<Rightarrow> world \<Rightarrow> (error + pyval) \<times> world" where
  "load_data_ini g X fin w =
     (case global_ref g ''configparser'' of
        Inl e \<Rightarrow> (Inl e, w)
      | Inr _ \<Rightarrow>
          (let (txt, w1) = read_all fin w in
           (case lib (cp_read_file X txt) of
              Inl e \<Rightarrow> (Inl e, w1)
            | Inr cp \<Rightarrow>
                (case ini_sections cp (cp_sections cp) [] of
                   Inl e \<Rightarrow> (Inl e, w1)
                 | Inr d \<Rightarrow> (Inr (PDict d), w1)))))"

text \<open>\<^verbatim>\<open>load_data_json\<close>, lines 48-64.\<close>

definition load_data_json ::
  "string list \<Rightarrow> 't externals \<Rightarrow> stream \<Rightarrow> world \<Rightarrow> (error + pyval) \<times> world" where
  "load_data_json g X fin w =
     (case global_ref g ''json'' of
        Inl e \<Rightarrow> (Inl e, w)
      | Inr _ \<Rightarrow> (let (txt, w1) = read_all fin w in (lib (json_load X txt), w1)))"

text \<open>\<^verbatim>\<open>load_data_xml\<close>, lines 66-82.\<close>

definition load_data_xml ::
  "string list \<Rightarrow> 't externals \<Rightarrow> stream \<Rightarrow> world \<Rightarrow> (error + pyval) \<times> world" where
  "load_data_xml g X fin w =
     (case global_ref g ''xmltodict'' of
        Inl e \<Rightarrow> (Inl e, w)
      | Inr _ \<Rightarrow> (let (txt, w1) = read_all fin w in (lib (xmltodict_parse X txt), w1)))"

text \<open>\<^verbatim>\<open>load_data_yaml\<close>, lines 84-100.\<close>

definition load_data_yaml ::
  "string list \<Rightarrow> 't externals \<Rightarrow> stream \<Rightarrow> world \<Rightarrow> (error + pyval) \<times> world" where
  "load_data_yaml g X fin w =
     (case global_ref g ''yaml'' of
        Inl e \<Rightarrow> (Inl e, w)
      | Inr _ \<Rightarrow> (let (txt, w1) = read_all fin w in (lib (yaml_safe_load X txt), w1)))"

text \<open>
  \<^verbatim>\<open>load_data_dsv\<close>, lines 103-129. The global names are evaluated in the order of the
  text: \<^verbatim>\<open>csv\<close> (line 120), \<^verbatim>\<open>csv\<close> and \<^verbatim>\<open>dialect_args\<close> (lines 124 and 125),
  \<^verbatim>\<open>csv\<close> (line 127), \<^verbatim>\<open>dialect_options\<close> (line 128). Only then is the reader built and
  read (\<open>csv_read\<close>: \<^verbatim>\<open>csv.DictReader\<close> with headers, \<^verbatim>\<open>csv.reader\<close> without).
\<close>

definition load_data_dsv ::
  "string list \<Rightarrow> 't externals \<Rightarrow> stream \<Rightarrow> string \<Rightarrow> bool \<Rightarrow> world \<Rightarrow> (error + pyval) \<times> world" where
  "load_data_dsv g X fin dialect has_headers w =
     (case global_refs g
             [''csv'', ''csv'', ''dialect_args'', ''csv'', ''dialect_args'', ''csv'',
              ''dialect_options''] of
        Inl e \<Rightarrow> (Inl e, w)
      | Inr _ \<Rightarrow>
          (let (txt, w1) = read_all fin w in (lib (csv_read X has_headers dialect txt), w1)))"

section \<open>\<^verbatim>\<open>load_data\<close>\<close>

text \<open>Lines 163-177, \<^verbatim>\<open>##  detect data format;\<close> when \<^verbatim>\<open>fmt is None\<close>.\<close>

definition detect_data_format :: "string \<Rightarrow> error + string" where
  "detect_data_format fname =
     (if endswith fname ''.ini'' then Inr ''ini''
      else if endswith fname ''.json'' then Inr ''json''
      else if endswith fname ''.xml'' then Inr ''xml''
      else if endswith fname ''.yaml'' then Inr ''yaml''
      else if endswith fname ''.tsv'' then Inr ''tsv''
      else if endswith fname ''.csv'' then Inr ''csv''
      else Inl (Exception ''no data format;''))"

text \<open>Lines 179-197, \<^verbatim>\<open>##  load data;\<close>.\<close>

definition load_data_fmt ::
  "string list \<Rightarrow> 't externals \<Rightarrow> string \<Rightarrow> stream \<Rightarrow> world \<Rightarrow> (error + pyval) \<times> world" where
  "load_data_fmt g X fmt fin w =
     (if fmt = ''ini'' then load_data_ini g X fin w
      else if fmt = ''json'' then load_data_json g X fin w
      else if fmt = ''xml'' then load_data_xml g X fin w
      else if fmt = ''yaml'' then load_data_yaml g X fin w
      else if fmt = ''tsv'' then load_data_dsv g X fin ''tsv'' True w
      else if fmt = ''csv'' then load_data_dsv g X fin ''csv'' True w
      else if startswith fmt ''csv.'' then load_data_dsv g X fin (partition_last fmt) True w
      else (Inl (Exception (''invalid data format: '' @ fmt @ '';'')), w))"

text \<open>The body of the \<^verbatim>\<open>try\<close>, lines 162-197.\<close>

definition load_stream ::
  "string list \<Rightarrow> 't externals \<Rightarrow> string \<Rightarrow> string option \<Rightarrow> stream \<Rightarrow> world
     \<Rightarrow> (error + pyval) \<times> world" where
  "load_stream g X fname fmt fin w =
     (case (case fmt of None \<Rightarrow> detect_data_format fname | Some f \<Rightarrow> Inr f) of
        Inl e \<Rightarrow> (Inl e, w)
      | Inr f \<Rightarrow> load_data_fmt g X f fin w)"

text \<open>Lines 155-159, \<^verbatim>\<open>##  get input file object;\<close>.\<close>

definition open_input :: "string list \<Rightarrow> 't externals \<Rightarrow> string \<Rightarrow> error + stream" where
  "open_input g X fname =
     (if fname = ''-'' then
        (case global_ref g ''sys'' of Inl e \<Rightarrow> Inl e | Inr _ \<Rightarrow> Inr Stdin)
      else
        (case lib (open_rt X fname) of Inl e \<Rightarrow> Inl e | Inr txt \<Rightarrow> Inr (FileObj txt)))"

text \<open>
  Lines 207-211. \<^verbatim>\<open>isinstance(data, collections.Mapping)\<close> evaluates the global
  \<^verbatim>\<open>collections\<close> first. Of the values of the data model only a dictionary is a
  \<^verbatim>\<open>Mapping\<close>. Wrapping logs one line through \<^verbatim>\<open>logging.info\<close>.
\<close>

definition wrap_top_level :: "string list \<Rightarrow> pyval \<Rightarrow> world \<Rightarrow> (error + pydict) \<times> world" where
  "wrap_top_level g data w =
     (case global_ref g ''collections'' of
        Inl e \<Rightarrow> (Inl e, w)
      | Inr _ \<Rightarrow>
          (case data of
             PDict d \<Rightarrow> (Inr d, w)
           | _ \<Rightarrow>
               (case global_ref g ''logging'' of
                  Inl e \<Rightarrow> (Inl e, w)
                | Inr _ \<Rightarrow>
                    (Inr [(''data'', data)],
                     w\<lparr>logged := logged w @
                        [''input doesn't provide top-level keys; using 'data'' @ [CHR 0x27]]\<rparr>))))"

text \<open>
  Lines 213-215, \<^verbatim>\<open>##  merge in command line data;\<close>. \<^verbatim>\<open>defines\<close> is what argparse
  collects for \<^verbatim>\<open>-D key value\<close>: \<^verbatim>\<open>None\<close> or a list of two-element lists of strings.
\<close>

definition merge_defines :: "pydict \<Rightarrow> (string \<times> string) list option \<Rightarrow> pydict" where
  "merge_defines data defines =
     (case defines of None \<Rightarrow> data | Some ds \<Rightarrow> dict_update data (str_items ds))"

text \<open>Lines 152-200: \<^verbatim>\<open>data = {}\<close>, then the file, when one is named.\<close>

definition read_data ::
  "string list \<Rightarrow> 't externals \<Rightarrow> string option \<Rightarrow> string option \<Rightarrow> world
     \<Rightarrow> (error + pyval) \<times> world" where
  "read_data g X fname fmt w =
     (case fname of
        None \<Rightarrow> (Inr (PDict []), w)
      | Some fn \<Rightarrow>
          (case open_input g X fn of
             Inl e \<Rightarrow> (Inl e, w)
           | Inr fin \<Rightarrow>
               (let (r, w1) = load_stream g X fn fmt fin w in (r, close_stream fin w1))))"

text \<open>\<^verbatim>\<open>load_data\<close>, lines 132-217.\<close>

definition load_data ::
  "string list \<Rightarrow> 't externals \<Rightarrow> string option \<Rightarrow> string option
     \<Rightarrow> (string \<times> string) list option \<Rightarrow> world \<Rightarrow> (error + pydict) \<times> world" where
  "load_data g X fname fmt defines w =
     (case read_data g X fname fmt w of
        (Inl e, w1) \<Rightarrow> (Inl e, w1)
      | (Inr data, w1) \<Rightarrow>
          (case wrap_top_level g data w1 of
             (Inl e, w2) \<Rightarrow> (Inl e, w2)
           | (Inr ctx, w2) \<Rightarrow> (Inr (merge_defines ctx defines), w2)))"

section \<open>\<^verbatim>\<open>main\<close>\<close>

text \<open>What \<^verbatim>\<open>parse_args\<close> returns (lines 219-286); every option defaults to \<^verbatim>\<open>None\<close>.\<close>

record args =
  args_define :: "(string \<times> string) list option"
  args_data :: "string option"
  args_format :: "string option"
  args_output :: "string option"
  args_template :: "string option"

text \<open>
  Lines 299-303: the template is the whole of standard input, served by a \<^verbatim>\<open>DictLoader\<close>
  under the name \<^verbatim>\<open>-\<close>.
\<close>

definition stdin_template :: "string list \<Rightarrow> 't externals \<Rightarrow> world \<Rightarrow> (error + 't) \<times> world" where
  "stdin_template g X w =
     (case global_refs g [''Environment'', ''DictLoader'', ''sys''] of
        Inl e \<Rightarrow> (Inl e, w)
      | Inr _ \<Rightarrow>
          (let (txt, w1) = read_all Stdin w in
           (lib (get_template X (DictLoader [(''-'', txt)]) ''-''), w1)))"

text \<open>Lines 305-309: the template is a file, looked up in its own directory.\<close>

definition file_template ::
  "string list \<Rightarrow> 't externals \<Rightarrow> string \<Rightarrow> world \<Rightarrow> (error + 't) \<times> world" where
  "file_template g X template w =
     (case global_refs g [''Environment'', ''FileSystemLoader'', ''dirname'', ''basename''] of
        Inl e \<Rightarrow> (Inl e, w)
      | Inr _ \<Rightarrow>
          (lib (get_template X (FileSystemLoader (dirname X template)) (basename X template)),
           w))"

text \<open>Lines 297-309, \<^verbatim>\<open>##  load template;\<close>.\<close>

definition load_template ::
  "string list \<Rightarrow> 't externals \<Rightarrow> string option \<Rightarrow> world \<Rightarrow> (error + 't) \<times> world" where
  "load_template g X template w =
     (case template of
        None \<Rightarrow> stdin_template g X w
      | Some t \<Rightarrow> if t = ''-'' then stdin_template g X w else file_template g X t w)"

text \<open>Lines 318-321: standard output, or the named file opened for writing.\<close>

definition open_output ::
  "string list \<Rightarrow> 't externals \<Rightarrow> string option \<Rightarrow> world \<Rightarrow> (error + dest) \<times> world" where
  "open_output g X output w =
     (let use_stdout =
            (case global_ref g ''sys'' of Inl e \<Rightarrow> (Inl e, w) | Inr _ \<Rightarrow> (Inr Stdout, w))
      in
        (case output of
           None \<Rightarrow> use_stdout
         | Some p \<Rightarrow>
             if p = ''-'' then use_stdout
             else
               (case open_wt X p of
                  Some e \<Rightarrow> (Inl (LibraryError e), w)
                | None \<Rightarrow> (Inr (OutFile p), w\<lparr>out_events := out_events w @ [Opened p]\<rparr>))))"

text \<open>Lines 317-325, \<^verbatim>\<open>##  write to output;\<close>: one \<^verbatim>\<open>write\<close>, then \<^verbatim>\<open>close\<close> in any case.\<close>

definition write_output ::
  "string list \<Rightarrow> 't externals \<Rightarrow> string option \<Rightarrow> string \<Rightarrow> world \<Rightarrow> (error + unit) \<times> world" where
  "write_output g X output rendered w =
     (case open_output g X output w of
        (Inl e, w1) \<Rightarrow> (Inl e, w1)
      | (Inr fout, w1) \<Rightarrow>
          ((case write_fails X rendered of Some e \<Rightarrow> Inl (LibraryError e) | None \<Rightarrow> Inr ()),
           w1\<lparr>out_events := out_events w1 @ [Wrote fout rendered, Closed fout]\<rparr>))"

text \<open>\<^verbatim>\<open>main\<close>, lines 288-325, after \<^verbatim>\<open>parse_args\<close>.\<close>

definition main :: "string list \<Rightarrow> 't externals \<Rightarrow> args \<Rightarrow> world \<Rightarrow> (error + unit) \<times> world" where
  "main g X a w =
     (case load_template g X (args_template a) w of
        (Inl e, w1) \<Rightarrow> (Inl e, w1)
      | (Inr template, w1) \<Rightarrow>
          (case load_data g X (args_data a) (args_format a) (args_define a) w1 of
             (Inl e, w2) \<Rightarrow> (Inl e, w2)
           | (Inr data, w2) \<Rightarrow>
               (case lib (render X template data) of
                  Inl e \<Rightarrow> (Inl e, w2)
                | Inr rendered \<Rightarrow> write_output g X (args_output a) rendered w2)))"

section \<open>The suffix table of the specification\<close>

text \<open>
  The specification describes format detection as a lookup in a fixed, ordered table of
  suffixes, first match first. This is that description, to be compared with the chain of
  tests of \<open>detect_data_format\<close>.
\<close>

definition suffix_table :: "(string \<times> string) list" where
  "suffix_table =
     [(''.ini'', ''ini''), (''.json'', ''json''), (''.xml'', ''xml''),
      (''.yaml'', ''yaml''), (''.tsv'', ''tsv''), (''.csv'', ''csv'')]"

definition resolve_by_table :: "string \<Rightarrow> error + string" where
  "resolve_by_table fname =
     (case find (\<lambda>(sfx, ident). endswith fname sfx) suffix_table of
        Some (sfx, ident) \<Rightarrow> Inr ident
      | None \<Rightarrow> Inl (Exception ''no data format;''))"

section \<open>Sample inputs\<close>

text \<open>
  A small outside world for concrete runs: one data file \<^verbatim>\<open>conf.json\<close> holding an empty
  object, an ini file with a default \<^verbatim>\<open>x = 5\<close> and a section \<^verbatim>\<open>s\<close> of its own key
  \<^verbatim>\<open>y\<close>, templates that render as their own text, and an output file that opens.
\<close>

definition sample_cp :: config_parser where
  "sample_cp =
     \<lparr>cp_defaults = [(''x'', ''5'')],
      cp_sections = [''s''],
      cp_getitem = (\<lambda>s. if s = ''s'' then Inr [(''y'', ''1''), (''x'', ''5'')]
                          else Inl ''KeyError'')\<rparr>"

definition sample_externals :: "string externals" where
  "sample_externals =
     \<lparr>open_rt = (\<lambda>p. if p = ''conf.json'' then Inr ''{}''
                      else if p = ''notes.txt'' then Inr ''hello''
                      else if p = ''conf.ini'' then Inr ''[DEFAULT] x = 5 [s] y = 1''
                      else Inl ''FileNotFoundError''),
      cp_read_file = (\<lambda>t. if t = ''[DEFAULT] x = 5 [s] y = 1'' then Inr sample_cp
                           else Inl ''ParsingError''),
      json_load = (\<lambda>t. if t = ''{}'' then Inr (PDict []) else Inl ''JSONDecodeError''),
      xmltodict_parse = (\<lambda>t. Inl ''ExpatError''),
      yaml_safe_load = (\<lambda>t. if t = [] then Inr PNone else Inl ''YAMLError''),
      csv_read = (\<lambda>h d t. Inl ''Error''),
      dirname = (\<lambda>p. []),
      basename = (\<lambda>p. p),
      get_template = (\<lambda>l n. case l of
                         DictLoader d \<Rightarrow>
                           (case map_of d n of Some src \<Rightarrow> Inr src
                            | None \<Rightarrow> Inl ''TemplateNotFound'')
                       | FileSystemLoader d \<Rightarrow> Inl ''TemplateNotFound''),
      render = (\<lambda>t ctx. if t = ''{{'' then Inl ''TemplateSyntaxError'' else Inr t),
      open_wt = (\<lambda>p. if p = ''out.txt'' then None else Some ''PermissionError''),
      write_fails = (\<lambda>s. None)\<rparr>"

definition sample_world :: world where
  "sample_world = \<lparr>stdin = ''Hi!'', stdin_closed = False, logged = [], out_events = []\<rparr>"

definition sample_args :: args where
  "sample_args =
     \<lparr>args_define = None, args_data = None, args_format = None, args_output = Some ''out.txt'',
      args_template = None\<rparr>"

text \<open>The module namespace with the two missing imports added.\<close>

definition repaired_globals :: "string list" where
  "repaired_globals = ''collections'' # ''csv'' # module_globals"

section \<open>Dictionaries: lookup after update\<close>

lemma dict_get_dict_set: "dict_get (dict_set d k v) k' = (if k' = k then Some v else dict_get d k')"
  by (induction d) (auto simp: dict_get_def)

lemma dict_set_twice: "dict_set (dict_set d k v1) k v2 = dict_set d k v2"
  by (induction d) auto

lemma dict_update_append: "dict_update d (kvs @ [(k, v)]) = dict_set (dict_update d kvs) k v"
  by (induction kvs arbitrary: d) auto

lemma dict_get_dict_update:
  "dict_get (dict_update d kvs) k = (case map_of (rev kvs) k of Some v \<Rightarrow> Some v | None \<Rightarrow> dict_get d k)"
proof (induction kvs arbitrary: d)
  case Nil
  then show ?case by simp
next
  case (Cons p kvs)
  obtain k' v' where p: "p = (k', v')" by (cases p)
  show ?case
    by (simp add: p Cons.IH dict_get_dict_set map_add_def split: option.splits)
qed

lemma keys_dict_set: "fst ` set (dict_set d k v) = insert k (fst ` set d)"
proof (induction d)
  case Nil
  show ?case by simp
next
  case (Cons p d)
  obtain k' v' where p: "p = (k', v')" by (cases p)
  show ?case
  proof (cases "k' = k")
    case True
    then show ?thesis by (simp add: p)
  next
    case False
    then show ?thesis using Cons.IH by (simp add: p insert_commute)
  qed
qed

lemma distinct_dict_set: "distinct (map fst d) \<Longrightarrow> distinct (map fst (dict_set d k v))"
  by (induction d) (auto simp: keys_dict_set)

lemma distinct_dict_update: "distinct (map fst d) \<Longrightarrow> distinct (map fst (dict_update d kvs))"
  by (induction kvs arbitrary: d) (auto simp: distinct_dict_set)

lemma str_items_append: "str_items (xs @ ys) = str_items xs @ str_items ys"
  by (simp add: str_items_def)

lemma map_of_rev_str_items:
  "map_of (rev (str_items kvs)) k = map_option PStr (map_of (rev kvs) k)"
  by (induction kvs) (auto simp: str_items_def map_add_def split: option.splits)

section \<open>Merging the command line definitions\<close>

text \<open>
  Claim C3. What \<^verbatim>\<open>load_data\<close> returns with command line definitions is what it returns
  without them, merged with the definitions: the same exception and final state when the
  call without definitions raises, and otherwise the merge of the context it returned.
  Merging leaves the context unchanged when no definitions are given (\<^verbatim>\<open>None\<close> or an
  empty list). Otherwise the definitions are stored one by one in the order given: the
  merge of a list extended by one pair is the merge of the list with that pair stored last,
  so a key looked up afterwards has the value of its last definition and, when it has no
  definition, the value it had in the context. Two definitions of one key leave the context
  with that key set to the second value, whatever the first was.
\<close>

theorem merge_defines_overrides:
  "load_data g X fname fmt defines w =
     (case load_data g X fname fmt None w of
        (Inl e, w') \<Rightarrow> (Inl e, w')
      | (Inr base, w') \<Rightarrow> (Inr (merge_defines base defines), w')) \<and>
   load_data g X fname fmt (Some []) w = load_data g X fname fmt None w \<and>
   merge_defines base None = base \<and>
   merge_defines base (Some []) = base \<and>
   merge_defines base (Some (ds @ [(k, v)])) = dict_set (merge_defines base (Some ds)) k (PStr v) \<and>
   dict_get (merge_defines base (Some ds)) k' =
     (case map_of (rev ds) k' of Some v' \<Rightarrow> Some (PStr v') | None \<Rightarrow> dict_get base k') \<and>
   merge_defines base (Some [(k1, v1), (k1, v2)]) = dict_set base k1 (PStr v2)"
proof -
  have absent: "merge_defines c None = c" "merge_defines c (Some []) = c" for c
    by (simp_all add: merge_defines_def str_items_def)
  have merged: "load_data g X fname fmt defs w =
      (case load_data g X fname fmt None w of
         (Inl e, w') \<Rightarrow> (Inl e, w')
       | (Inr base, w') \<Rightarrow> (Inr (merge_defines base defs), w'))" for defs
  proof (cases "read_data g X fname fmt w")
    case read: (Pair r w1)
    show ?thesis
    proof (cases r)
      case (Inl e)
      with read show ?thesis by (simp add: load_data_def)
    next
      case data: (Inr data)
      show ?thesis
      proof (cases "wrap_top_level g data w1")
        case wrapped: (Pair c w2)
        with read data show ?thesis
          by (cases c) (simp_all add: load_data_def absent)
      qed
    qed
  qed
  have empty: "load_data g X fname fmt (Some []) w = load_data g X fname fmt None w"
  proof (cases "load_data g X fname fmt None w")
    case (Pair c w')
    with merged [of "Some []"] show ?thesis
      by (cases c) (simp_all add: absent)
  qed
  have in_order:
    "merge_defines base (Some (ds @ [(k, v)])) = dict_set (merge_defines base (Some ds)) k (PStr v)"
    by (simp add: merge_defines_def str_items_def dict_update_append)
  have lookup: "dict_get (merge_defines base (Some ds)) k' =
      (case map_of (rev ds) k' of Some v' \<Rightarrow> Some (PStr v') | None \<Rightarrow> dict_get base k')"
    by (simp add: merge_defines_def dict_get_dict_update map_of_rev_str_items
        split: option.splits)
  have last_wins: "merge_defines base (Some [(k1, v1), (k1, v2)]) = dict_set base k1 (PStr v2)"
    by (simp add: merge_defines_def str_items_def dict_set_twice)
  from merged [of "defines"] empty absent [of base] in_order lookup last_wins
  show ?thesis by blast
qed

text \<open>
  The theorem at a run that returns: the file \<^verbatim>\<open>conf.json\<close> (an empty object), in the
  namespace with \<^verbatim>\<open>collections\<close> bound, with the definitions \<^verbatim>\<open>-D a 1 -D a 2\<close>. (With
  the names of the module itself \<^verbatim>\<open>load_data\<close> raises at line 207 on every call, with
  and without definitions.)
\<close>

theorem merge_defines_overrides_witness:
  "load_data repaired_globals sample_externals (Some ''conf.json'') None None sample_world
     = (Inr [], sample_world) \<and>
   load_data repaired_globals sample_externals (Some ''conf.json'') None
       (Some [(''a'', ''1''), (''a'', ''2'')]) sample_world
     = (Inr [(''a'', PStr ''2'')], sample_world)"
proof -
  have base: "load_data repaired_globals sample_externals (Some ''conf.json'') None None
      sample_world = (Inr [], sample_world)"
    by (simp add: load_data_def read_data_def open_input_def load_stream_def
        detect_data_format_def endswith_def suffix_to_prefix load_data_fmt_def
        load_data_json_def read_all_def close_stream_def wrap_top_level_def merge_defines_def
        global_ref_def repaired_globals_def module_globals_def sample_externals_def lib_def)
  from merge_defines_overrides
      [of repaired_globals sample_externals "Some ''conf.json''" None
          "Some [(''a'', ''1''), (''a'', ''2'')]" sample_world "[]" "[]" "''a''" "''1''"
          "''a''" "''a''" "''1''" "''2''"]
  have "load_data repaired_globals sample_externals (Some ''conf.json'') None
      (Some [(''a'', ''1''), (''a'', ''2'')]) sample_world
      = (Inr (dict_set [] ''a'' (PStr ''2'')), sample_world)"
    by (simp add: base)
  with base show ?thesis by simp
qed

section \<open>Names of the module\<close>

lemma global_ref_bound: "name \<in> set g \<Longrightarrow> global_ref g name = Inr ()"
  by (simp add: global_ref_def)

lemma global_ref_unbound: "name \<notin> set g \<Longrightarrow> global_ref g name = Inl (NameError name)"
  by (simp add: global_ref_def)

lemma collections_unbound: "''collections'' \<notin> set module_globals"
  by (simp add: module_globals_def)

lemma csv_unbound: "''csv'' \<notin> set module_globals"
  by (simp add: module_globals_def)

section \<open>Detecting the data format\<close>

lemma endswith_rev: "endswith s sfx = prefix (rev sfx) (rev s)"
  by (simp add: endswith_def suffix_to_prefix)

text \<open>
  Claim C4. With no explicit format, a file name that ends in \<^verbatim>\<open>.ini\<close>, \<^verbatim>\<open>.json\<close>,
  \<^verbatim>\<open>.xml\<close>, \<^verbatim>\<open>.yaml\<close>, \<^verbatim>\<open>.tsv\<close> or \<^verbatim>\<open>.csv\<close> selects the format of that name:
  the body of the \<^verbatim>\<open>try\<close> then is the call of the loader of that format on the stream
  (\<^verbatim>\<open>load_data_dsv\<close> with the dialect \<^verbatim>\<open>tsv\<close> or \<^verbatim>\<open>csv\<close> for the last two). The
  chain of tests of the source is the lookup of the first matching entry of the ordered
  suffix table, the match being equality of the last characters (so case matters), and the
  body of the \<^verbatim>\<open>try\<close> dispatches on the format so found. A name that ends in none of the
  six suffixes raises the exception \<^verbatim>\<open>no data format;\<close>: the body of the \<^verbatim>\<open>try\<close>
  stops there, before any loader reads the stream, and \<^verbatim>\<open>load_data\<close>, once the named
  file is open, closes it and ends in that exception.
\<close>

theorem detect_data_format_table:
  "detect_data_format fname = resolve_by_table fname \<and>
   detect_data_format (n @ ''.ini'') = Inr ''ini'' \<and>
   detect_data_format (n @ ''.json'') = Inr ''json'' \<and>
   detect_data_format (n @ ''.xml'') = Inr ''xml'' \<and>
   detect_data_format (n @ ''.yaml'') = Inr ''yaml'' \<and>
   detect_data_format (n @ ''.tsv'') = Inr ''tsv'' \<and>
   detect_data_format (n @ ''.csv'') = Inr ''csv'' \<and>
   ((\<forall>sfx \<in> set (map fst suffix_table). \<not> endswith fname sfx) \<longrightarrow>
      detect_data_format fname = Inl (Exception ''no data format;'') \<and>
      load_stream g X fname None fin w = (Inl (Exception ''no data format;''), w) \<and>
      (open_input g X fname = Inr fin \<longrightarrow>
         load_data g X (Some fname) None defines w
           = (Inl (Exception ''no data format;''), close_stream fin w))) \<and>
   load_stream g X fname None fin w =
     (case resolve_by_table fname of
        Inl e \<Rightarrow> (Inl e, w)
      | Inr f \<Rightarrow> load_data_fmt g X f fin w) \<and>
   load_stream g X (n @ ''.ini'') None fin w = load_data_ini g X fin w \<and>
   load_stream g X (n @ ''.json'') None fin w = load_data_json g X fin w \<and>
   load_stream g X (n @ ''.xml'') None fin w = load_data_xml g X fin w \<and>
   load_stream g X (n @ ''.yaml'') None fin w = load_data_yaml g X fin w \<and>
   load_stream g X (n @ ''.tsv'') None fin w = load_data_dsv g X fin ''tsv'' True w \<and>
   load_stream g X (n @ ''.csv'') None fin w = load_data_dsv g X fin ''csv'' True w \<and>
   (open_input g X fname = Inr fin \<longrightarrow>
      read_data g X (Some fname) None w =
        (case load_stream g X fname None fin w of (r, w1) \<Rightarrow> (r, close_stream fin w1)) \<and>
      load_data g X (Some fname) None defines w =
        (case load_stream g X fname None fin w of
           (Inl e, w1) \<Rightarrow> (Inl e, close_stream fin w1)
         | (Inr data, w1) \<Rightarrow>
             (case wrap_top_level g data (close_stream fin w1) of
                (Inl e, w2) \<Rightarrow> (Inl e, w2)
              | (Inr ctx, w2) \<Rightarrow> (Inr (merge_defines ctx defines), w2))))"
proof -
  have table: "detect_data_format fname = resolve_by_table fname"
    by (simp add: detect_data_format_def resolve_by_table_def suffix_table_def)
  have ini: "detect_data_format (n @ ''.ini'') = Inr ''ini''"
    by (simp add: detect_data_format_def endswith_rev)
  have json: "detect_data_format (n @ ''.json'') = Inr ''json''"
    by (simp add: detect_data_format_def endswith_rev)
  have xml: "detect_data_format (n @ ''.xml'') = Inr ''xml''"
    by (simp add: detect_data_format_def endswith_rev)
  have yaml: "detect_data_format (n @ ''.yaml'') = Inr ''yaml''"
    by (simp add: detect_data_format_def endswith_rev)
  have tsv: "detect_data_format (n @ ''.tsv'') = Inr ''tsv''"
    by (simp add: detect_data_format_def endswith_rev)
  have csv: "detect_data_format (n @ ''.csv'') = Inr ''csv''"
    by (simp add: detect_data_format_def endswith_rev)
  have unknown: "(\<forall>sfx \<in> set (map fst suffix_table). \<not> endswith fname sfx) \<longrightarrow>
      detect_data_format fname = Inl (Exception ''no data format;'') \<and>
      load_stream g X fname None fin w = (Inl (Exception ''no data format;''), w) \<and>
      (open_input g X fname = Inr fin \<longrightarrow>
         load_data g X (Some fname) None defines w
           = (Inl (Exception ''no data format;''), close_stream fin w))"
    by (simp add: load_data_def read_data_def load_stream_def detect_data_format_def
        suffix_table_def)
  have dispatch: "load_stream g X fname None fin w =
      (case resolve_by_table fname of
         Inl e \<Rightarrow> (Inl e, w)
       | Inr f \<Rightarrow> load_data_fmt g X f fin w)"
    by (simp add: load_stream_def table)
  have run_ini: "load_stream g X (n @ ''.ini'') None fin w = load_data_ini g X fin w"
    by (simp add: load_stream_def ini load_data_fmt_def)
  have run_json: "load_stream g X (n @ ''.json'') None fin w = load_data_json g X fin w"
    by (simp add: load_stream_def json load_data_fmt_def)
  have run_xml: "load_stream g X (n @ ''.xml'') None fin w = load_data_xml g X fin w"
    by (simp add: load_stream_def xml load_data_fmt_def)
  have run_yaml: "load_stream g X (n @ ''.yaml'') None fin w = load_data_yaml g X fin w"
    by (simp add: load_stream_def yaml load_data_fmt_def)
  have run_tsv: "load_stream g X (n @ ''.tsv'') None fin w
      = load_data_dsv g X fin ''tsv'' True w"
    by (simp add: load_stream_def tsv load_data_fmt_def)
  have run_csv: "load_stream g X (n @ ''.csv'') None fin w
      = load_data_dsv g X fin ''csv'' True w"
    by (simp add: load_stream_def csv load_data_fmt_def)
  have opened: "open_input g X fname = Inr fin \<longrightarrow>
      read_data g X (Some fname) None w =
        (case load_stream g X fname None fin w of (r, w1) \<Rightarrow> (r, close_stream fin w1)) \<and>
      load_data g X (Some fname) None defines w =
        (case load_stream g X fname None fin w of
           (Inl e, w1) \<Rightarrow> (Inl e, close_stream fin w1)
         | (Inr data, w1) \<Rightarrow>
             (case wrap_top_level g data (close_stream fin w1) of
                (Inl e, w2) \<Rightarrow> (Inl e, w2)
              | (Inr ctx, w2) \<Rightarrow> (Inr (merge_defines ctx defines), w2)))"
  proof (cases "load_stream g X fname None fin w")
    case (Pair r w1)
    then show ?thesis
      by (cases r) (simp_all add: load_data_def read_data_def)
  qed
  from table ini json xml yaml tsv csv unknown dispatch
    run_ini run_json run_xml run_yaml run_tsv run_csv opened
  show ?thesis by blast
qed

text \<open>
  The theorem at \<^verbatim>\<open>notes.txt\<close> and at \<^verbatim>\<open>DATA.JSON\<close>, which end in no suffix of the
  table (the second one only for its upper case), and at \<^verbatim>\<open>conf.json\<close>, which is read
  by \<^verbatim>\<open>load_data_json\<close>.
\<close>

theorem detect_data_format_table_witness:
  "\<not> endswith ''notes.txt'' ''.ini'' \<and> \<not> endswith ''notes.txt'' ''.json'' \<and>
   \<not> endswith ''notes.txt'' ''.xml'' \<and> \<not> endswith ''notes.txt'' ''.yaml'' \<and>
   \<not> endswith ''notes.txt'' ''.tsv'' \<and> \<not> endswith ''notes.txt'' ''.csv'' \<and>
   map fst suffix_table = [''.ini'', ''.json'', ''.xml'', ''.yaml'', ''.tsv'', ''.csv''] \<and>
   detect_data_format ''notes.txt'' = Inl (Exception ''no data format;'') \<and>
   open_input module_globals sample_externals ''notes.txt'' = Inr (FileObj ''hello'') \<and>
   load_stream module_globals sample_externals ''notes.txt'' None (FileObj ''hello'')
       sample_world
     = (Inl (Exception ''no data format;''), sample_world) \<and>
   load_data module_globals sample_externals (Some ''notes.txt'') None None sample_world
     = (Inl (Exception ''no data format;''), sample_world) \<and>
   detect_data_format ''DATA.JSON'' = Inl (Exception ''no data format;'') \<and>
   detect_data_format ''conf.json'' = Inr ''json'' \<and>
   open_input module_globals sample_externals ''conf.json'' = Inr (FileObj ''{}'') \<and>
   load_stream module_globals sample_externals ''conf.json'' None (FileObj ''{}'')
       sample_world
     = (Inr (PDict []), sample_world) \<and>
   read_data module_globals sample_externals (Some ''conf.json'') None sample_world
     = (Inr (PDict []), sample_world) \<and>
   load_data repaired_globals sample_externals (Some ''conf.json'') None None sample_world
     = (Inr [], sample_world)"
proof -
  have none: "\<forall>sfx \<in> set (map fst suffix_table). \<not> endswith ''notes.txt'' sfx"
    by (simp add: suffix_table_def endswith_rev)
  have upper: "\<forall>sfx \<in> set (map fst suffix_table). \<not> endswith ''DATA.JSON'' sfx"
    by (simp add: suffix_table_def endswith_rev)
  have plain: "open_input module_globals sample_externals ''notes.txt'' = Inr (FileObj ''hello'')"
    by (simp add: open_input_def sample_externals_def lib_def)
  have conf: "open_input module_globals sample_externals ''conf.json'' = Inr (FileObj ''{}'')"
    by (simp add: open_input_def sample_externals_def lib_def)
  have closed: "close_stream (FileObj t) sample_world = sample_world" for t
    by (simp add: close_stream_def)
  have json: "load_data_json module_globals sample_externals (FileObj ''{}'') sample_world
      = (Inr (PDict []), sample_world)"
    by (simp add: load_data_json_def global_ref_def module_globals_def read_all_def
        sample_externals_def lib_def)
  have a0: "detect_data_format ''notes.txt'' = Inl (Exception ''no data format;'') \<and>
      load_stream module_globals sample_externals ''notes.txt'' None (FileObj ''hello'')
          sample_world
        = (Inl (Exception ''no data format;''), sample_world) \<and>
      load_data module_globals sample_externals (Some ''notes.txt'') None None sample_world
        = (Inl (Exception ''no data format;''), close_stream (FileObj ''hello'') sample_world)"
    using none plain
      detect_data_format_table
        [of "''notes.txt''" "[]" module_globals sample_externals "FileObj ''hello''"
            sample_world None]
    by blast
  have a: "detect_data_format ''notes.txt'' = Inl (Exception ''no data format;'') \<and>
      load_stream module_globals sample_externals ''notes.txt'' None (FileObj ''hello'')
          sample_world
        = (Inl (Exception ''no data format;''), sample_world) \<and>
      load_data module_globals sample_externals (Some ''notes.txt'') None None sample_world
        = (Inl (Exception ''no data format;''), sample_world)"
    using a0 by (simp only: closed)
  have b: "detect_data_format ''DATA.JSON'' = Inl (Exception ''no data format;'')"
    using upper
      detect_data_format_table
        [of "''DATA.JSON''" "[]" module_globals sample_externals Stdin sample_world None]
    by blast
  have c0: "detect_data_format (''conf'' @ ''.json'') = Inr ''json'' \<and>
      load_stream module_globals sample_externals (''conf'' @ ''.json'') None (FileObj ''{}'')
          sample_world
        = load_data_json module_globals sample_externals (FileObj ''{}'') sample_world"
    using detect_data_format_table
        [of "[]" "''conf''" module_globals sample_externals "FileObj ''{}''" sample_world None]
    by blast
  have c: "detect_data_format ''conf.json'' = Inr ''json'' \<and>
      load_stream module_globals sample_externals ''conf.json'' None (FileObj ''{}'')
          sample_world
        = (Inr (PDict []), sample_world)"
    using c0 by (simp add: json)
  have d0: "read_data module_globals sample_externals (Some ''conf.json'') None sample_world
      = (case load_stream module_globals sample_externals ''conf.json'' None (FileObj ''{}'')
                sample_world of
           (r, w1) \<Rightarrow> (r, close_stream (FileObj ''{}'') w1))"
    using conf
      detect_data_format_table
        [of "''conf.json''" "[]" module_globals sample_externals "FileObj ''{}''"
            sample_world None]
    by blast
  have d: "read_data module_globals sample_externals (Some ''conf.json'') None sample_world
      = (Inr (PDict []), sample_world)"
    by (simp add: d0 c closed)
  have conf': "open_input repaired_globals sample_externals ''conf.json'' = Inr (FileObj ''{}'')"
    by (simp add: open_input_def sample_externals_def lib_def)
  have json': "load_data_json repaired_globals sample_externals (FileObj ''{}'') sample_world
      = (Inr (PDict []), sample_world)"
    by (simp add: load_data_json_def global_ref_def repaired_globals_def module_globals_def
        read_all_def sample_externals_def lib_def)
  have f0: "load_stream repaired_globals sample_externals (''conf'' @ ''.json'') None
        (FileObj ''{}'') sample_world
      = load_data_json repaired_globals sample_externals (FileObj ''{}'') sample_world"
    using detect_data_format_table
        [of "[]" "''conf''" repaired_globals sample_externals "FileObj ''{}''" sample_world None]
    by blast
  have f1: "load_data repaired_globals sample_externals (Some ''conf.json'') None None
        sample_world =
      (case load_stream repaired_globals sample_externals ''conf.json'' None (FileObj ''{}'')
              sample_world of
         (Inl e, w1) \<Rightarrow> (Inl e, close_stream (FileObj ''{}'') w1)
       | (Inr data, w1) \<Rightarrow>
           (case wrap_top_level repaired_globals data (close_stream (FileObj ''{}'') w1) of
              (Inl e, w2) \<Rightarrow> (Inl e, w2)
            | (Inr ctx, w2) \<Rightarrow> (Inr (merge_defines ctx None), w2)))"
    using conf'
      detect_data_format_table
        [of "''conf.json''" "[]" repaired_globals sample_externals "FileObj ''{}''"
            sample_world None]
    by blast
  have f: "load_data repaired_globals sample_externals (Some ''conf.json'') None None
      sample_world = (Inr [], sample_world)"
  proof -
    from f0 json'
    have f2: "load_stream repaired_globals sample_externals ''conf.json'' None (FileObj ''{}'')
        sample_world = (Inr (PDict []), sample_world)"
      by simp
    have wrapped: "wrap_top_level repaired_globals (PDict []) sample_world
        = (Inr [], sample_world)"
      by (simp add: wrap_top_level_def global_ref_def repaired_globals_def)
    show ?thesis
      by (simp add: f1 f2 closed wrapped merge_defines_def)
  qed
  have e: "\<not> endswith ''notes.txt'' ''.ini'' \<and> \<not> endswith ''notes.txt'' ''.json'' \<and>
      \<not> endswith ''notes.txt'' ''.xml'' \<and> \<not> endswith ''notes.txt'' ''.yaml'' \<and>
      \<not> endswith ''notes.txt'' ''.tsv'' \<and> \<not> endswith ''notes.txt'' ''.csv'' \<and>
      map fst suffix_table = [''.ini'', ''.json'', ''.xml'', ''.yaml'', ''.tsv'', ''.csv'']"
    by (simp add: suffix_table_def endswith_rev)
  from a b c d e f plain conf show ?thesis by blast
qed

section \<open>The top-level dictionary\<close>

lemma wrap_top_level_unbound:
  "''collections'' \<notin> set g \<Longrightarrow> wrap_top_level g v w = (Inl (NameError ''collections''), w)"
  by (simp add: wrap_top_level_def global_ref_def)

lemma wrap_top_level_bound:
  "''collections'' \<in> set g \<Longrightarrow> ''logging'' \<in> set g \<Longrightarrow>
   wrap_top_level g v w =
     (case v of
        PDict d \<Rightarrow> (Inr d, w)
      | _ \<Rightarrow> (Inr [(''data'', v)],
              w\<lparr>logged := logged w @
                 [''input doesn't provide top-level keys; using 'data'' @ [CHR 0x27]]\<rparr>))"
  by (simp add: wrap_top_level_def global_ref_def split: pyval.splits)

lemma read_data_None: "read_data g X None fmt w = (Inr (PDict []), w)"
  by (simp add: read_data_def)

text \<open>
  Claim C1. The module never imports \<^verbatim>\<open>collections\<close>, so line 207 raises
  \<^verbatim>\<open>NameError\<close> before the test is made: a dictionary is not returned unchanged, and a
  list or \<^verbatim>\<open>None\<close> is not wrapped under \<^verbatim>\<open>data\<close>. \<^verbatim>\<open>load_data(None, None, None)\<close>, the
  call with no data file, fails in the same way. (\<open>wrap_top_level_bound\<close> is what the lines
  do once the name is bound: what the claim says.)
\<close>

theorem load_data_module_NameError:
  "wrap_top_level module_globals (PDict [(''name'', PStr ''World'')]) w
     = (Inl (NameError ''collections''), w) \<and>
   wrap_top_level module_globals (PList []) w = (Inl (NameError ''collections''), w) \<and>
   wrap_top_level module_globals PNone w = (Inl (NameError ''collections''), w) \<and>
   load_data module_globals X None None None w = (Inl (NameError ''collections''), w)"
  by (simp add: load_data_def read_data_None wrap_top_level_unbound collections_unbound)

text \<open>
  Claim C2. With the names of the module, lines 207-211 return for no value at all, and
  so \<^verbatim>\<open>load_data\<close> returns for no arguments: every call ends in an exception.
\<close>

theorem wrap_top_level_module_never_returns:
  "fst (wrap_top_level module_globals v w) = Inl (NameError ''collections'') \<and>
   (\<forall>ctx. fst (wrap_top_level module_globals v w) \<noteq> Inr ctx) \<and>
   (\<forall>ctx. fst (load_data module_globals X fname fmt defines w) \<noteq> Inr ctx)"
  by (simp add: load_data_def wrap_top_level_unbound collections_unbound
      split: prod.splits sum.splits)

section \<open>No data file\<close>

text \<open>
  Claim C5, as amended. When no data file is named, the requested format is not looked at:
  neither format detection nor a loader runs, the data before wrapping and merging is the
  empty dictionary, the call behaves as the call without a format, and it raises neither of
  the two exceptions of \<^verbatim>\<open>load_data\<close> (\<^verbatim>\<open>no data format;\<close>, \<^verbatim>\<open>invalid data format\<close>).
\<close>

theorem load_data_no_file_ignores_format:
  "load_data g X None fmt defines w = load_data g X None None defines w \<and>
   read_data g X None fmt w = (Inr (PDict []), w) \<and>
   (\<forall>msg. fst (load_data g X None fmt defines w) \<noteq> Inl (Exception msg))"
  by (simp add: load_data_def read_data_None wrap_top_level_def global_ref_def
      split: prod.splits sum.splits)

text \<open>
  The claim as first stated fails at \<^verbatim>\<open>load_data(None, 'json', None)\<close>: the exception is
  not \<^verbatim>\<open>no data format;\<close>, and with \<^verbatim>\<open>collections\<close> imported the call returns the empty
  dictionary.
\<close>

theorem load_data_no_file_counterexample:
  "fst (load_data module_globals sample_externals None (Some ''json'') None sample_world)
     = Inl (NameError ''collections'') \<and>
   fst (load_data module_globals sample_externals None (Some ''json'') None sample_world)
     \<noteq> Inl (Exception ''no data format;'') \<and>
   fst (load_data repaired_globals sample_externals None (Some ''json'') None sample_world)
     = Inr []"
  by (simp add: load_data_def read_data_None wrap_top_level_def global_ref_def
      module_globals_def repaired_globals_def merge_defines_def)

section \<open>Delimiter-separated values\<close>

text \<open>
  Claim C7. \<^verbatim>\<open>load_data_dsv\<close> on the text \<^verbatim>\<open>a,b\n1,2\n3,4\<close> under the dialect
  \<^verbatim>\<open>csv\<close> raises \<^verbatim>\<open>NameError\<close> for \<^verbatim>\<open>csv\<close> at line 120, with and without headers, as it
  does on every input: no rows are returned. With \<^verbatim>\<open>csv\<close> imported the call still
  fails, at line 124, for \<^verbatim>\<open>dialect_args\<close>.
\<close>

theorem load_data_dsv_module_NameError:
  "load_data_dsv module_globals X (FileObj ''a,b\<newline>1,2\<newline>3,4'') ''csv'' True w
     = (Inl (NameError ''csv''), w) \<and>
   load_data_dsv module_globals X (FileObj ''a,b\<newline>1,2\<newline>3,4'') ''csv'' False w
     = (Inl (NameError ''csv''), w) \<and>
   load_data_dsv module_globals X fin dialect has_headers w = (Inl (NameError ''csv''), w) \<and>
   load_data_dsv repaired_globals X fin dialect has_headers w
     = (Inl (NameError ''dialect_args''), w)"
  by (simp add: load_data_dsv_def global_ref_def module_globals_def repaired_globals_def)

section \<open>The template argument\<close>

text \<open>
  Claim C10. A run with the template argument omitted is the run with the template argument
  \<^verbatim>\<open>-\<close>: same result, same final state. In both, the template is loaded from the whole
  of the unread standard input, which is left empty. Where the three names of line 299-300
  are bound, as they are in the module, such a run of \<^verbatim>\<open>main\<close> is: the template that
  jinja2 builds from the whole of standard input; when that fails, its exception; otherwise
  \<^verbatim>\<open>load_data\<close> on the world with standard input read to its end, then rendering of
  that template with the data, then the output step.
\<close>

theorem template_omitted_is_stdin:
  "main g X (a\<lparr>args_template := None\<rparr>) w = main g X (a\<lparr>args_template := Some ''-''\<rparr>) w \<and>
   load_template g X None w = load_template g X (Some ''-'') w \<and>
   load_template module_globals X None w
     = (lib (get_template X (DictLoader [(''-'', stdin w)]) ''-''), w\<lparr>stdin := []\<rparr>) \<and>
   (''Environment'' \<in> set g \<and> ''DictLoader'' \<in> set g \<and> ''sys'' \<in> set g \<longrightarrow>
      main g X (a\<lparr>args_template := None\<rparr>) w =
        (case lib (get_template X (DictLoader [(''-'', stdin w)]) ''-'') of
           Inl e \<Rightarrow> (Inl e, w\<lparr>stdin := []\<rparr>)
         | Inr template \<Rightarrow>
             (case load_data g X (args_data a) (args_format a) (args_define a)
                     (w\<lparr>stdin := []\<rparr>) of
                (Inl e, w2) \<Rightarrow> (Inl e, w2)
              | (Inr data, w2) \<Rightarrow>
                  (case lib (render X template data) of
                     Inl e \<Rightarrow> (Inl e, w2)
                   | Inr rendered \<Rightarrow> write_output g X (args_output a) rendered w2))))"
proof -
  have same: "load_template g X None w = load_template g X (Some ''-'') w"
    by (simp add: load_template_def)
  have run: "main g X (a\<lparr>args_template := None\<rparr>) w
      = main g X (a\<lparr>args_template := Some ''-''\<rparr>) w"
    unfolding main_def by (simp add: same cong: prod.case_cong sum.case_cong)
  have whole: "load_template module_globals X None w
      = (lib (get_template X (DictLoader [(''-'', stdin w)]) ''-''), w\<lparr>stdin := []\<rparr>)"
    by (simp add: load_template_def stdin_template_def read_all_def global_ref_def
        module_globals_def)
  have pipeline: "main g X (a\<lparr>args_template := None\<rparr>) w =
      (case lib (get_template X (DictLoader [(''-'', stdin w)]) ''-'') of
         Inl e \<Rightarrow> (Inl e, w\<lparr>stdin := []\<rparr>)
       | Inr template \<Rightarrow>
           (case load_data g X (args_data a) (args_format a) (args_define a)
                   (w\<lparr>stdin := []\<rparr>) of
              (Inl e, w2) \<Rightarrow> (Inl e, w2)
            | (Inr data, w2) \<Rightarrow>
                (case lib (render X template data) of
                   Inl e \<Rightarrow> (Inl e, w2)
                 | Inr rendered \<Rightarrow> write_output g X (args_output a) rendered w2)))"
    if "''Environment'' \<in> set g" "''DictLoader'' \<in> set g" "''sys'' \<in> set g"
  proof -
    from that have "load_template g X None w
        = (lib (get_template X (DictLoader [(''-'', stdin w)]) ''-''), w\<lparr>stdin := []\<rparr>)"
      by (simp add: load_template_def stdin_template_def read_all_def global_ref_def)
    then show ?thesis
      unfolding main_def by (simp cong: prod.case_cong sum.case_cong)
  qed
  from same run whole pipeline show ?thesis by blast
qed

text \<open>
  The theorem at a run with the template omitted and \<^verbatim>\<open>Hi!\<close> on standard input, in the
  namespace with \<^verbatim>\<open>collections\<close> bound: the text of standard input is what is rendered
  and written, and standard input is left empty.
\<close>

theorem template_omitted_is_stdin_witness:
  "''Environment'' \<in> set repaired_globals \<and> ''DictLoader'' \<in> set repaired_globals \<and>
   ''sys'' \<in> set repaired_globals \<and>
   stdin sample_world = ''Hi!'' \<and>
   main repaired_globals sample_externals (sample_args\<lparr>args_template := None\<rparr>) sample_world
     = (Inr (),
        sample_world\<lparr>stdin := [],
          out_events := [Opened ''out.txt'', Wrote (OutFile ''out.txt'') ''Hi!'',
                         Closed (OutFile ''out.txt'')]\<rparr>) \<and>
   main repaired_globals sample_externals (sample_args\<lparr>args_template := Some ''-''\<rparr>)
       sample_world
     = (Inr (),
        sample_world\<lparr>stdin := [],
          out_events := [Opened ''out.txt'', Wrote (OutFile ''out.txt'') ''Hi!'',
                         Closed (OutFile ''out.txt'')]\<rparr>)"
proof -
  have bound: "''Environment'' \<in> set repaired_globals \<and> ''DictLoader'' \<in> set repaired_globals \<and>
      ''sys'' \<in> set repaired_globals"
    by (simp add: repaired_globals_def module_globals_def)
  have input: "stdin sample_world = ''Hi!''"
    by (simp add: sample_world_def)
  note inst = template_omitted_is_stdin [of repaired_globals sample_externals sample_args
      sample_world]
  from inst bound
  have "main repaired_globals sample_externals (sample_args\<lparr>args_template := None\<rparr>)
      sample_world =
      (case lib (get_template sample_externals (DictLoader [(''-'', stdin sample_world)]) ''-'') of
         Inl e \<Rightarrow> (Inl e, sample_world\<lparr>stdin := []\<rparr>)
       | Inr template \<Rightarrow>
           (case load_data repaired_globals sample_externals (args_data sample_args)
                   (args_format sample_args) (args_define sample_args)
                   (sample_world\<lparr>stdin := []\<rparr>) of
              (Inl e, w2) \<Rightarrow> (Inl e, w2)
            | (Inr data, w2) \<Rightarrow>
                (case lib (render sample_externals template data) of
                   Inl e \<Rightarrow> (Inl e, w2)
                 | Inr rendered \<Rightarrow>
                     write_output repaired_globals sample_externals (args_output sample_args)
                       rendered w2)))"
    by blast
  then have omitted:
    "main repaired_globals sample_externals (sample_args\<lparr>args_template := None\<rparr>) sample_world
      = (Inr (),
         sample_world\<lparr>stdin := [],
           out_events := [Opened ''out.txt'', Wrote (OutFile ''out.txt'') ''Hi!'',
                          Closed (OutFile ''out.txt'')]\<rparr>)"
    by (simp add: global_ref_def repaired_globals_def module_globals_def sample_args_def
        sample_externals_def sample_world_def lib_def load_data_def read_data_def
        wrap_top_level_def merge_defines_def write_output_def open_output_def)
  from inst omitted
  have dash: "main repaired_globals sample_externals (sample_args\<lparr>args_template := Some ''-''\<rparr>)
      sample_world
      = (Inr (),
         sample_world\<lparr>stdin := [],
           out_events := [Opened ''out.txt'', Wrote (OutFile ''out.txt'') ''Hi!'',
                          Closed (OutFile ''out.txt'')]\<rparr>)"
    by simp
  from bound input omitted dash show ?thesis by blast
qed

section \<open>An explicit format that is not known\<close>

text \<open>
  Claim C6, as amended. An explicit format that is none of \<^verbatim>\<open>ini\<close>, \<^verbatim>\<open>json\<close>,
  \<^verbatim>\<open>xml\<close>, \<^verbatim>\<open>yaml\<close>, \<^verbatim>\<open>tsv\<close>, \<^verbatim>\<open>csv\<close> and does not start with \<^verbatim>\<open>csv.\<close> raises
  the exception \<^verbatim>\<open>invalid data format: <fmt>;\<close> whenever a data file is named and opens,
  whatever its name and suffix are: the body of the \<^verbatim>\<open>try\<close> never consults the name when
  a format is given, and \<^verbatim>\<open>load_data\<close> closes the stream and ends in that exception.
  When the named file does not open, \<^verbatim>\<open>load_data\<close> ends in the exception of
  \<^verbatim>\<open>open\<close>, raised before the format is examined. When no data file is named, the format
  is not examined at all: the call is the call without a format.
\<close>

theorem invalid_data_format:
  assumes "fmt \<notin> set [''ini'', ''json'', ''xml'', ''yaml'', ''tsv'', ''csv'']"
    and "\<not> startswith fmt ''csv.''"
  shows "load_stream g X fname (Some fmt) fin w
           = (Inl (Exception (''invalid data format: '' @ fmt @ '';'')), w) \<and>
         (open_input g X fname = Inr fin \<longrightarrow>
            load_data g X (Some fname) (Some fmt) defines w
              = (Inl (Exception (''invalid data format: '' @ fmt @ '';'')), close_stream fin w)) \<and>
         (\<forall>e. open_input g X fname = Inl e \<longrightarrow>
            load_data g X (Some fname) (Some fmt) defines w = (Inl e, w)) \<and>
         load_data g X None (Some fmt) defines w = load_data g X None None defines w"
proof -
  have dispatch: "load_data_fmt g X fmt fin w
      = (Inl (Exception (''invalid data format: '' @ fmt @ '';'')), w)"
    using assms by (simp add: load_data_fmt_def)
  then have body: "load_stream g X fname (Some fmt) fin w
      = (Inl (Exception (''invalid data format: '' @ fmt @ '';'')), w)"
    by (simp add: load_stream_def)
  then show ?thesis
    by (simp add: load_data_def read_data_def)
qed

text \<open>
  The theorem at the format \<^verbatim>\<open>frobnicate\<close> and the file \<^verbatim>\<open>conf.json\<close>, whose suffix
  alone would select \<^verbatim>\<open>json\<close>.
\<close>

theorem invalid_data_format_witness:
  "''frobnicate'' \<notin> set [''ini'', ''json'', ''xml'', ''yaml'', ''tsv'', ''csv''] \<and>
   \<not> startswith ''frobnicate'' ''csv.'' \<and>
   open_input module_globals sample_externals ''conf.json'' = Inr (FileObj ''{}'') \<and>
   load_stream module_globals sample_externals ''conf.json'' (Some ''frobnicate'')
       (FileObj ''{}'') sample_world
     = (Inl (Exception ''invalid data format: frobnicate;''), sample_world) \<and>
   load_data module_globals sample_externals (Some ''conf.json'') (Some ''frobnicate'') None
       sample_world
     = (Inl (Exception ''invalid data format: frobnicate;''), sample_world)"
proof -
  have known: "''frobnicate'' \<notin> set [''ini'', ''json'', ''xml'', ''yaml'', ''tsv'', ''csv'']"
    by simp
  have param: "\<not> startswith ''frobnicate'' ''csv.''"
    by (simp add: startswith_def)
  have opened: "open_input module_globals sample_externals ''conf.json'' = Inr (FileObj ''{}'')"
    by (simp add: open_input_def sample_externals_def lib_def)
  have closed: "close_stream (FileObj ''{}'') sample_world = sample_world"
    by (simp add: close_stream_def)
  have run: "load_stream module_globals sample_externals ''conf.json'' (Some ''frobnicate'')
        (FileObj ''{}'') sample_world
      = (Inl (Exception (''invalid data format: '' @ ''frobnicate'' @ '';'')), sample_world) \<and>
    load_data module_globals sample_externals (Some ''conf.json'') (Some ''frobnicate'') None
        sample_world
      = (Inl (Exception (''invalid data format: '' @ ''frobnicate'' @ '';'')),
         close_stream (FileObj ''{}'') sample_world)"
    using opened
      invalid_data_format [OF known param, of module_globals sample_externals "''conf.json''"
        "FileObj ''{}''" sample_world None]
    by blast
  from run known param opened show ?thesis
    by (simp add: closed)
qed

text \<open>
  The claim as first stated fails where no data file is named, and where the named file
  does not open. \<^verbatim>\<open>load_data(None, 'frobnicate', None)\<close> passes lines 152-200 with the
  empty dictionary as data and raises no exception about the format (what it raises is
  the \<^verbatim>\<open>NameError\<close> of line 207); \<^verbatim>\<open>load_data('missing.json', 'frobnicate', None)\<close>
  ends in the exception of \<^verbatim>\<open>open\<close>.
\<close>

theorem invalid_data_format_counterexample:
  "read_data module_globals sample_externals None (Some ''frobnicate'') sample_world
     = (Inr (PDict []), sample_world) \<and>
   fst (load_data module_globals sample_externals None (Some ''frobnicate'') None sample_world)
     = Inl (NameError ''collections'') \<and>
   fst (load_data module_globals sample_externals None (Some ''frobnicate'') None sample_world)
     \<noteq> Inl (Exception ''invalid data format: frobnicate;'') \<and>
   load_data module_globals sample_externals (Some ''missing.json'') (Some ''frobnicate'') None
       sample_world
     = (Inl (LibraryError ''FileNotFoundError''), sample_world) \<and>
   fst (load_data module_globals sample_externals (Some ''missing.json'') (Some ''frobnicate'')
          None sample_world)
     \<noteq> Inl (Exception ''invalid data format: frobnicate;'')"
proof -
  have missing: "open_input module_globals sample_externals ''missing.json''
      = Inl (LibraryError ''FileNotFoundError'')"
    by (simp add: open_input_def sample_externals_def lib_def)
  have no_file: "load_data module_globals sample_externals None (Some ''frobnicate'') None
      sample_world = (Inl (NameError ''collections''), sample_world)"
    by (simp add: load_data_def read_data_None wrap_top_level_unbound collections_unbound)
  have no_open: "load_data module_globals sample_externals (Some ''missing.json'')
      (Some ''frobnicate'') None sample_world
      = (Inl (LibraryError ''FileNotFoundError''), sample_world)"
    by (simp add: load_data_def read_data_def missing)
  show ?thesis
    by (simp add: read_data_None no_file no_open)
qed

section \<open>The ini loader\<close>

lemma dict_get_Nil: "dict_get [] k = None"
  by (simp add: dict_get_def)

lemma dict_get_make_dict:
  "dict_get (make_dict kvs) k = map_of (rev kvs) k"
  by (simp add: make_dict_def dict_get_dict_update dict_get_Nil split: option.splits)

lemma dict_get_section_dict:
  "dict_get (section_dict defaults items) k =
     (case dict_get (make_dict (str_items items)) k of
        Some v \<Rightarrow> Some v
      | None \<Rightarrow> dict_get (make_dict (str_items defaults)) k)"
  by (simp add: section_dict_def dict_get_dict_update dict_get_make_dict)

lemma section_dict_strings:
  "dict_get (section_dict defaults items) k = Some v \<Longrightarrow> \<exists>str. v = PStr str"
  by (auto simp: dict_get_section_dict dict_get_make_dict map_of_rev_str_items
      split: option.splits)

lemma ini_sections_ok:
  "\<forall>t \<in> set ss. cp_getitem cp t = Inr (items t) \<Longrightarrow>
   ini_sections cp ss acc
     = Inr (dict_update acc (map (\<lambda>t. (t, PDict (section_dict (cp_defaults cp) (items t)))) ss))"
  by (induction ss arbitrary: acc) (simp_all add: lib_def)

lemma map_of_rev_graph:
  "map_of (rev (map (\<lambda>t. (t, f t)) ss)) s = (if s \<in> set ss then Some (f s) else None)"
  by (induction ss) (auto simp: map_add_def split: option.splits)

text \<open>
  Claim C8. When the file parses and every section unpacks, \<^verbatim>\<open>load_data_ini\<close> returns a
  dictionary with exactly the section names as keys; the value of a section is a dictionary
  whose lookup is the section's own pair when it has the key and the default otherwise, and
  all of whose values are strings. In particular, when the defaults give \<^verbatim>\<open>x\<close> the value
  \<^verbatim>\<open>5\<close> and the pairs of a section give \<^verbatim>\<open>x\<close> no value of their own (none, or the
  inherited \<^verbatim>\<open>5\<close>), the dictionary of that section maps \<^verbatim>\<open>x\<close> to the string \<^verbatim>\<open>5\<close>.
\<close>

theorem load_data_ini_overlay:
  assumes "cp_read_file X (fst (read_all fin w)) = Inr cp"
    and "\<forall>t \<in> set (cp_sections cp). cp_getitem cp t = Inr (items t)"
  shows "\<exists>d. load_data_ini module_globals X fin w = (Inr (PDict d), snd (read_all fin w)) \<and>
     (\<forall>s. dict_get d s =
        (if s \<in> set (cp_sections cp)
         then Some (PDict (section_dict (cp_defaults cp) (items s))) else None)) \<and>
     (\<forall>s k. dict_get (section_dict (cp_defaults cp) (items s)) k =
        (case dict_get (make_dict (str_items (items s))) k of
           Some v \<Rightarrow> Some v
         | None \<Rightarrow> dict_get (make_dict (str_items (cp_defaults cp))) k)) \<and>
     (\<forall>s k v. dict_get (section_dict (cp_defaults cp) (items s)) k = Some v \<longrightarrow>
        (\<exists>str. v = PStr str)) \<and>
     (\<forall>s x. s \<in> set (cp_sections cp) \<and>
        dict_get (make_dict (str_items (cp_defaults cp))) x = Some (PStr ''5'') \<and>
        (dict_get (make_dict (str_items (items s))) x = None \<or>
         dict_get (make_dict (str_items (items s))) x = Some (PStr ''5'')) \<longrightarrow>
        (\<exists>sd. dict_get d s = Some (PDict sd) \<and> dict_get sd x = Some (PStr ''5'')))"
proof -
  define d where
    "d = dict_update [] (map (\<lambda>t. (t, PDict (section_dict (cp_defaults cp) (items t))))
           (cp_sections cp))"
  have bound: "global_ref module_globals ''configparser'' = Inr ()"
    by (simp add: global_ref_def module_globals_def)
  have sections: "ini_sections cp (cp_sections cp) [] = Inr d"
    unfolding d_def using assms(2) by (rule ini_sections_ok)
  have run: "load_data_ini module_globals X fin w = (Inr (PDict d), snd (read_all fin w))"
  proof (cases "read_all fin w")
    case (Pair content w1)
    with assms(1) sections show ?thesis
      by (simp add: load_data_ini_def bound lib_def)
  qed
  have entries: "dict_get d s =
      (if s \<in> set (cp_sections cp)
       then Some (PDict (section_dict (cp_defaults cp) (items s))) else None)" for s
    unfolding d_def
    by (simp add: dict_get_dict_update map_of_rev_graph dict_get_Nil)
  have five: "\<exists>sd. dict_get d s = Some (PDict sd) \<and> dict_get sd x = Some (PStr ''5'')"
    if "s \<in> set (cp_sections cp)"
      and "dict_get (make_dict (str_items (cp_defaults cp))) x = Some (PStr ''5'')"
      and "dict_get (make_dict (str_items (items s))) x = None \<or>
           dict_get (make_dict (str_items (items s))) x = Some (PStr ''5'')"
    for s x
    using that by (auto simp: entries dict_get_section_dict)
  from run entries dict_get_section_dict section_dict_strings five show ?thesis
    by blast
qed

text \<open>
  The theorem at the sample ini file: a default \<^verbatim>\<open>x = 5\<close> and a section \<^verbatim>\<open>s\<close> that
  sets only \<^verbatim>\<open>y\<close>.
\<close>

theorem load_data_ini_overlay_witness:
  "cp_read_file sample_externals
       (fst (read_all (FileObj ''[DEFAULT] x = 5 [s] y = 1'') sample_world)) = Inr sample_cp \<and>
   cp_sections sample_cp = [''s''] \<and>
   cp_getitem sample_cp ''s'' = Inr [(''y'', ''1''), (''x'', ''5'')] \<and>
   dict_get (make_dict (str_items (cp_defaults sample_cp))) ''x'' = Some (PStr ''5'') \<and>
   (\<exists>d sd. load_data_ini module_globals sample_externals
              (FileObj ''[DEFAULT] x = 5 [s] y = 1'') sample_world = (Inr (PDict d), sample_world) \<and>
      dict_get d ''s'' = Some (PDict sd) \<and> dict_get sd ''x'' = Some (PStr ''5''))"
proof -
  let ?fin = "FileObj ''[DEFAULT] x = 5 [s] y = 1''"
  let ?items = "\<lambda>t::string. [(''y'', ''1''), (''x'', ''5'')]"
  have parsed: "cp_read_file sample_externals (fst (read_all ?fin sample_world)) = Inr sample_cp"
    by (simp add: read_all_def sample_externals_def)
  have names: "cp_sections sample_cp = [''s'']"
    by (simp add: sample_cp_def)
  have pairs: "cp_getitem sample_cp ''s'' = Inr [(''y'', ''1''), (''x'', ''5'')]"
    by (simp add: sample_cp_def)
  have all_pairs: "\<forall>t \<in> set (cp_sections sample_cp). cp_getitem sample_cp t = Inr (?items t)"
    by (simp add: sample_cp_def)
  have default: "dict_get (make_dict (str_items (cp_defaults sample_cp))) ''x'' = Some (PStr ''5'')"
    by (simp add: sample_cp_def make_dict_def str_items_def dict_get_def)
  have inherited: "dict_get (make_dict (str_items (?items ''s''))) ''x'' = Some (PStr ''5'')"
    by (simp add: make_dict_def str_items_def dict_get_def)
  have unread: "snd (read_all ?fin sample_world) = sample_world"
    by (simp add: read_all_def)
  from load_data_ini_overlay [OF parsed all_pairs] obtain d where
    run: "load_data_ini module_globals sample_externals ?fin sample_world
            = (Inr (PDict d), snd (read_all ?fin sample_world))"
    and five: "\<forall>s x. s \<in> set (cp_sections sample_cp) \<and>
        dict_get (make_dict (str_items (cp_defaults sample_cp))) x = Some (PStr ''5'') \<and>
        (dict_get (make_dict (str_items (?items s))) x = None \<or>
         dict_get (make_dict (str_items (?items s))) x = Some (PStr ''5'')) \<longrightarrow>
        (\<exists>sd. dict_get d s = Some (PDict sd) \<and> dict_get sd x = Some (PStr ''5''))"
    by blast
  from five names default inherited
  obtain sd where "dict_get d ''s'' = Some (PDict sd)" "dict_get sd ''x'' = Some (PStr ''5'')"
    by auto
  with run unread parsed names pairs default show ?thesis
    by auto
qed

section \<open>Nothing before the output step touches the output\<close>

lemma out_events_read_all: "out_events (snd (read_all fin w)) = out_events w"
  by (simp add: read_all_def split: stream.splits)

lemma out_events_close_stream: "out_events (close_stream fin w) = out_events w"
  by (simp add: close_stream_def split: stream.splits)

lemma out_events_load_data_ini: "out_events (snd (load_data_ini g X fin w)) = out_events w"
  using out_events_read_all [of fin w]
  by (auto simp: load_data_ini_def split: sum.splits prod.splits)

lemma out_events_load_data_json: "out_events (snd (load_data_json g X fin w)) = out_events w"
  using out_events_read_all [of fin w]
  by (auto simp: load_data_json_def split: sum.splits prod.splits)

lemma out_events_load_data_xml: "out_events (snd (load_data_xml g X fin w)) = out_events w"
  using out_events_read_all [of fin w]
  by (auto simp: load_data_xml_def split: sum.splits prod.splits)

lemma out_events_load_data_yaml: "out_events (snd (load_data_yaml g X fin w)) = out_events w"
  using out_events_read_all [of fin w]
  by (auto simp: load_data_yaml_def split: sum.splits prod.splits)

lemma out_events_load_data_dsv:
  "out_events (snd (load_data_dsv g X fin dialect has_headers w)) = out_events w"
  using out_events_read_all [of fin w]
  by (auto simp: load_data_dsv_def split: sum.splits prod.splits)

lemmas out_events_loaders =
  out_events_load_data_ini out_events_load_data_json out_events_load_data_xml
  out_events_load_data_yaml out_events_load_data_dsv

lemma out_events_load_data_fmt: "out_events (snd (load_data_fmt g X fmt fin w)) = out_events w"
  by (simp add: load_data_fmt_def out_events_loaders)

lemma out_events_load_stream:
  "out_events (snd (load_stream g X fname fmt fin w)) = out_events w"
  by (simp add: load_stream_def out_events_load_data_fmt split: sum.splits)

lemma out_events_read_data: "out_events (snd (read_data g X fname fmt w)) = out_events w"
proof (cases fname)
  case None
  then show ?thesis by (simp add: read_data_def)
next
  case (Some fn)
  show ?thesis
  proof (cases "open_input g X fn")
    case (Inl e)
    with Some show ?thesis by (simp add: read_data_def)
  next
    case (Inr fin)
    with Some out_events_load_stream [of g X fn fmt fin w] show ?thesis
      by (auto simp: read_data_def out_events_close_stream split: prod.splits)
  qed
qed

lemma out_events_wrap_top_level: "out_events (snd (wrap_top_level g v w)) = out_events w"
  by (simp add: wrap_top_level_def split: sum.splits pyval.splits)

lemma out_events_load_data:
  "out_events (snd (load_data g X fname fmt defines w)) = out_events w"
proof (cases "read_data g X fname fmt w")
  case (Pair r w1)
  with out_events_read_data [of g X fname fmt w] have w1: "out_events w1 = out_events w"
    by simp
  show ?thesis
  proof (cases r)
    case (Inl e)
    with Pair w1 show ?thesis by (simp add: load_data_def)
  next
    case (Inr data)
    with Pair w1 out_events_wrap_top_level [of g data w1] show ?thesis
      by (auto simp: load_data_def split: prod.splits sum.splits)
  qed
qed

lemma out_events_load_template:
  "out_events (snd (load_template g X template w)) = out_events w"
  using out_events_read_all [of Stdin w]
  by (auto simp: load_template_def stdin_template_def file_template_def
      split: option.splits sum.splits prod.splits)

section \<open>Output is written after rendering\<close>

lemma open_output_cases:
  "(\<exists>e. open_output g X dst w = (Inl e, w)) \<or>
   open_output g X dst w = (Inr Stdout, w) \<or>
   (\<exists>p. open_output g X dst w
      = (Inr (OutFile p), w\<lparr>out_events := out_events w @ [Opened p]\<rparr>))"
  by (simp add: open_output_def Let_def global_ref_def split: option.splits)

lemma write_output_events:
  "(\<exists>e. write_output g X dst rendered w = (Inl e, w)) \<or>
   out_events (snd (write_output g X dst rendered w))
     = out_events w @ [Wrote Stdout rendered, Closed Stdout] \<or>
   (\<exists>p. out_events (snd (write_output g X dst rendered w))
     = out_events w @ [Opened p, Wrote (OutFile p) rendered, Closed (OutFile p)])"
proof -
  consider e where "open_output g X dst w = (Inl e, w)"
    | "open_output g X dst w = (Inr Stdout, w)"
    | p where "open_output g X dst w
        = (Inr (OutFile p), w\<lparr>out_events := out_events w @ [Opened p]\<rparr>)"
    using open_output_cases [of g X dst w] by blast
  then show ?thesis
  proof cases
    case 1
    then show ?thesis by (simp add: write_output_def)
  next
    case 2
    then show ?thesis by (simp add: write_output_def)
  next
    case 3
    then have "out_events (snd (write_output g X dst rendered w))
        = out_events w @ [Opened p, Wrote (OutFile p) rendered, Closed (OutFile p)]"
      by (simp add: write_output_def)
    then show ?thesis by blast
  qed
qed

text \<open>
  Claim C9. Every run of \<^verbatim>\<open>main\<close> either ends in an exception with nothing done to the
  output destination, or it has loaded the template and the data and rendered them to a
  string without touching the output destination, and what it then does to the destination
  is: open it (when it is a file), one \<^verbatim>\<open>write\<close> of the whole rendered string, and
  \<^verbatim>\<open>close\<close>. In particular, when rendering raises, the run ends in that exception and
  the output destination is neither opened nor written.
\<close>

theorem main_output_after_render:
  "((\<exists>e w'. main g X a w = (Inl e, w') \<and> out_events w' = out_events w) \<or>
    (\<exists>template w1 data w2 rendered.
       load_template g X (args_template a) w = (Inr template, w1) \<and>
       load_data g X (args_data a) (args_format a) (args_define a) w1 = (Inr data, w2) \<and>
       render X template data = Inr rendered \<and>
       out_events w2 = out_events w \<and>
       main g X a w = write_output g X (args_output a) rendered w2 \<and>
       (out_events (snd (main g X a w))
          = out_events w @ [Wrote Stdout rendered, Closed Stdout] \<or>
        (\<exists>p. out_events (snd (main g X a w))
          = out_events w @ [Opened p, Wrote (OutFile p) rendered, Closed (OutFile p)])))) \<and>
   (\<forall>template w1 data w2 e.
       load_template g X (args_template a) w = (Inr template, w1) \<and>
       load_data g X (args_data a) (args_format a) (args_define a) w1 = (Inr data, w2) \<and>
       render X template data = Inl e \<longrightarrow>
       main g X a w = (Inl (LibraryError e), w2) \<and> out_events w2 = out_events w)"
proof -
  obtain rt w1 where lt: "load_template g X (args_template a) w = (rt, w1)"
    by (cases "load_template g X (args_template a) w")
  from out_events_load_template [of g X "args_template a" w] lt
  have w1: "out_events w1 = out_events w" by simp
  show ?thesis
  proof (cases rt)
    case (Inl e)
    with lt w1 show ?thesis by (simp add: main_def)
  next
    case template: (Inr template)
    obtain rd w2 where ld:
      "load_data g X (args_data a) (args_format a) (args_define a) w1 = (rd, w2)"
      by (cases "load_data g X (args_data a) (args_format a) (args_define a) w1")
    from out_events_load_data [of g X "args_data a" "args_format a" "args_define a" w1] ld w1
    have w2: "out_events w2 = out_events w" by simp
    show ?thesis
    proof (cases rd)
      case (Inl e)
      with lt template ld w2 show ?thesis by (simp add: main_def)
    next
      case data: (Inr data)
      show ?thesis
      proof (cases "render X template data")
        case (Inl e)
        with lt template ld data w2 show ?thesis by (simp add: main_def lib_def)
      next
        case (Inr rendered)
        with lt template ld data
        have run: "main g X a w = write_output g X (args_output a) rendered w2"
          by (simp add: main_def lib_def)
        from write_output_events [of g X "args_output a" rendered w2] run w2
        have "(\<exists>e w'. main g X a w = (Inl e, w') \<and> out_events w' = out_events w) \<or>
            out_events (snd (main g X a w))
              = out_events w @ [Wrote Stdout rendered, Closed Stdout] \<or>
            (\<exists>p. out_events (snd (main g X a w))
              = out_events w @ [Opened p, Wrote (OutFile p) rendered, Closed (OutFile p)])"
          by auto
        with lt template ld data Inr w2 run show ?thesis by auto
      qed
    qed
  qed
qed

text \<open>
  The theorem at a run whose template \<^verbatim>\<open>{{\<close> fails to render (nothing is written), next
  to a run that renders \<^verbatim>\<open>Hi!\<close> and writes it to \<^verbatim>\<open>out.txt\<close>; both in the namespace
  with \<^verbatim>\<open>collections\<close> bound, where \<^verbatim>\<open>load_data\<close> returns.
\<close>

theorem main_output_after_render_witness:
  "load_template repaired_globals sample_externals (args_template sample_args)
       (sample_world\<lparr>stdin := ''{{''\<rparr>)
     = (Inr ''{{'', sample_world\<lparr>stdin := []\<rparr>) \<and>
   load_data repaired_globals sample_externals (args_data sample_args) (args_format sample_args)
       (args_define sample_args) (sample_world\<lparr>stdin := []\<rparr>)
     = (Inr [], sample_world\<lparr>stdin := []\<rparr>) \<and>
   render sample_externals ''{{'' [] = Inl ''TemplateSyntaxError'' \<and>
   main repaired_globals sample_externals sample_args (sample_world\<lparr>stdin := ''{{''\<rparr>)
     = (Inl (LibraryError ''TemplateSyntaxError''), sample_world\<lparr>stdin := []\<rparr>) \<and>
   out_events (sample_world\<lparr>stdin := []\<rparr>) = [] \<and>
   main repaired_globals sample_externals sample_args sample_world
     = (Inr (),
        sample_world\<lparr>stdin := [],
          out_events := [Opened ''out.txt'', Wrote (OutFile ''out.txt'') ''Hi!'',
                         Closed (OutFile ''out.txt'')]\<rparr>)"
proof -
  have template: "load_template repaired_globals sample_externals (args_template sample_args)
        (sample_world\<lparr>stdin := ''{{''\<rparr>)
      = (Inr ''{{'', sample_world\<lparr>stdin := []\<rparr>)"
    by (simp add: load_template_def stdin_template_def read_all_def global_ref_def
        repaired_globals_def module_globals_def sample_args_def sample_externals_def
        sample_world_def lib_def)
  have data: "load_data repaired_globals sample_externals (args_data sample_args)
        (args_format sample_args) (args_define sample_args) (sample_world\<lparr>stdin := []\<rparr>)
      = (Inr [], sample_world\<lparr>stdin := []\<rparr>)"
    by (simp add: load_data_def read_data_def wrap_top_level_def merge_defines_def
        global_ref_def repaired_globals_def module_globals_def sample_args_def)
  have fails: "render sample_externals ''{{'' [] = Inl ''TemplateSyntaxError''"
    by (simp add: sample_externals_def)
  have untouched: "out_events (sample_world\<lparr>stdin := []\<rparr>) = []"
    by (simp add: sample_world_def)
  have failed: "main repaired_globals sample_externals sample_args
        (sample_world\<lparr>stdin := ''{{''\<rparr>)
      = (Inl (LibraryError ''TemplateSyntaxError''), sample_world\<lparr>stdin := []\<rparr>)"
    using main_output_after_render
        [of repaired_globals sample_externals sample_args "sample_world\<lparr>stdin := ''{{''\<rparr>"]
      template data fails
    by blast
  have written: "main repaired_globals sample_externals sample_args sample_world
      = (Inr (),
         sample_world\<lparr>stdin := [],
           out_events := [Opened ''out.txt'', Wrote (OutFile ''out.txt'') ''Hi!'',
                          Closed (OutFile ''out.txt'')]\<rparr>)"
    by (simp add: main_def load_template_def stdin_template_def read_all_def global_ref_def
        repaired_globals_def module_globals_def sample_args_def sample_externals_def
        sample_world_def lib_def load_data_def read_data_def wrap_top_level_def
        merge_defines_def write_output_def open_output_def)
  from template data fails failed untouched written show ?thesis by blast
qed

text \<open>
  With the names of the module itself, \<^verbatim>\<open>load_data\<close> raises on every call (line 207),
  so \<^verbatim>\<open>main\<close> never reaches rendering and never writes.
\<close>

lemma load_data_module_fails:
  "\<exists>e. fst (load_data module_globals X fname fmt defines w) = Inl e"
proof (cases "read_data module_globals X fname fmt w")
  case (Pair r w1)
  then show ?thesis
    by (cases r) (simp_all add: load_data_def wrap_top_level_unbound collections_unbound)
qed

lemma main_module_never_writes:
  "(\<exists>e. fst (main module_globals X a w) = Inl e) \<and>
   out_events (snd (main module_globals X a w)) = out_events w"
proof -
  obtain rt w1 where lt: "load_template module_globals X (args_template a) w = (rt, w1)"
    by (cases "load_template module_globals X (args_template a) w")
  from out_events_load_template [of module_globals X "args_template a" w] lt
  have w1: "out_events w1 = out_events w" by simp
  show ?thesis
  proof (cases rt)
    case (Inl e)
    with lt w1 show ?thesis by (simp add: main_def)
  next
    case (Inr template)
    obtain rd w2 where ld:
      "load_data module_globals X (args_data a) (args_format a) (args_define a) w1 = (rd, w2)"
      by (cases "load_data module_globals X (args_data a) (args_format a) (args_define a) w1")
    from out_events_load_data [of module_globals X "args_data a" "args_format a" "args_define a" w1]
      ld w1
    have w2: "out_events w2 = out_events w" by simp
    from load_data_module_fails [of X "args_data a" "args_format a" "args_define a" w1] ld
    obtain e where "rd = Inl e" by auto
    with lt Inr ld w2 show ?thesis by (simp add: main_def)
  qed
qed

end
